theory Spec2Isabelle
  imports Complex_Main
begin

section \<open>The database schema\<close>

text \<open>
  The tables of \<^verbatim>\<open>supabase/migrations/20250225124845_broad_lagoon.sql\<close> with the column
  \<^verbatim>\<open>sealed_bidding\<close> and the table \<^verbatim>\<open>notifications\<close> added by the second migration.
  A \<^verbatim>\<open>uuid\<close> is an opaque identifier, a \<^verbatim>\<open>timestamptz\<close> a point on an integer time line
  (in seconds), a \<^verbatim>\<open>decimal\<close> a rational number. A column that may be NULL and that a
  statement tests for NULL has an \<open>option\<close> type: \<^verbatim>\<open>winner_id\<close> and \<^verbatim>\<open>winning_bid_id\<close> of an
  auction, \<^verbatim>\<open>created_at\<close> and \<^verbatim>\<open>updated_at\<close> of a bid. The columns \<^verbatim>\<open>description\<close> and
  \<^verbatim>\<open>images\<close> of a product and the timestamps of products and auctions, which no statement
  reads, are left out. A table is the list of its rows in the order in which a scan
  returns them; \<^verbatim>\<open>id\<close> is the primary key of each table.
\<close>

type_synonym uuid = nat
type_synonym timestamptz = int
type_synonym decimal = rat

datatype auction_status = Draft | Active | Ended | Cancelled

record product =
  p_id :: uuid
  seller_id :: uuid
  title :: string

record auction =
  a_id :: uuid
  product_id :: uuid
  start_price :: decimal
  start_time :: timestamptz
  end_time :: timestamptz
  status :: auction_status
  winner_id :: "uuid option"
  winning_bid_id :: "uuid option"
  sealed_bidding :: bool

record bid =
  b_id :: uuid
  auction_id :: uuid
  bidder_id :: uuid
  amount :: decimal
  created_at :: "timestamptz option"
  updated_at :: "timestamptz option"

text \<open>
  The message of a notification is built with \<^verbatim>\<open>||\<close> from a literal and a column; the cast
  of a decimal to text is kept symbolic.
\<close>

datatype text_item = Str string | Dec decimal

record notification =
  user_id :: uuid
  n_title :: string
  message :: "text_item list"

record database =
  products :: "product list"
  auctions :: "auction list"
  bids :: "bid list"
  notifications :: "notification list"

text \<open>
  A statement runs for a role. Row-level security restricts a signed-in user, whose id is
  \<^verbatim>\<open>auth.uid()\<close>; it does not restrict the owner of the tables or the service role. The
  trigger functions are not SECURITY DEFINER, so their statements run for the role of the
  statement that fired the trigger.
\<close>

datatype role = Authenticated uuid | Service_role

datatype sql_error =
  Not_null_violation | Rls_violation | Unique_violation | Foreign_key_violation
  | Stack_depth_limit_exceeded

text \<open>
  A failed statement is rolled back: the database after a statement is the one it
  returns, or the one before when it fails.
\<close>

definition database_after :: "database \<Rightarrow> sql_error + database \<Rightarrow> database" where
  "database_after db r = (case r of Inl e \<Rightarrow> db | Inr db' \<Rightarrow> db')"

section \<open>Row-level security\<close>

text \<open>
  The policies that the statements below meet; \<open>uid\<close> is \<^verbatim>\<open>auth.uid()\<close>.
  \<^item> bids: \<^verbatim>\<open>"Users can view own bids" FOR SELECT USING (auth.uid() = bidder_id)\<close>
  \<^item> bids: \<^verbatim>\<open>"Users can create bids" FOR INSERT WITH CHECK (auth.uid() = bidder_id AND EXISTS
    (SELECT 1 FROM public.auctions a WHERE a.id = auction_id AND a.status = 'active'
    AND a.end_time > now()))\<close>
  \<^item> auctions: \<^verbatim>\<open>"Sellers can create auctions" FOR INSERT WITH CHECK (EXISTS (SELECT 1 FROM
    public.products WHERE id = product_id AND seller_id = auth.uid()))\<close>
  \<^item> products: \<^verbatim>\<open>"Users can create products" FOR INSERT WITH CHECK (auth.uid() = seller_id)\<close>

  Products, auctions and notifications can be read by every signed-in user, and
  \<^verbatim>\<open>"System can insert notifications"\<close> admits every row. Table auctions has no UPDATE
  policy and table bids has no UPDATE and no DELETE policy: for a signed-in user such a
  statement finds no row.
\<close>

definition users_can_view_own_bids :: "uuid \<Rightarrow> bid \<Rightarrow> bool" where
  "users_can_view_own_bids uid b \<longleftrightarrow> uid = bidder_id b"

definition users_can_create_bids :: "uuid \<Rightarrow> timestamptz \<Rightarrow> auction list \<Rightarrow> bid \<Rightarrow> bool" where
  "users_can_create_bids uid now as b \<longleftrightarrow>
     uid = bidder_id b \<and>
     (\<exists>a\<in>set as. a_id a = auction_id b \<and> status a = Active \<and> end_time a > now)"

definition sellers_can_create_auctions :: "uuid \<Rightarrow> product list \<Rightarrow> auction \<Rightarrow> bool" where
  "sellers_can_create_auctions uid ps a \<longleftrightarrow>
     (\<exists>p\<in>set ps. p_id p = product_id a \<and> seller_id p = uid)"

definition users_can_create_products :: "uuid \<Rightarrow> product \<Rightarrow> bool" where
  "users_can_create_products uid p \<longleftrightarrow> uid = seller_id p"

text \<open>The rows of table bids that a SELECT of the role sees.\<close>

definition visible_bids :: "role \<Rightarrow> bid list \<Rightarrow> bid list" where
  "visible_bids r bs =
     (case r of
        Authenticated uid \<Rightarrow> filter (users_can_view_own_bids uid) bs
      | Service_role \<Rightarrow> bs)"

section \<open>The trigger functions\<close>

text \<open>
  \<^verbatim>\<open>SELECT * INTO winning_bid FROM public.bids WHERE auction_id = NEW.id
  ORDER BY amount DESC LIMIT 1\<close>.
  The only sort key is the amount. SQL leaves the order of rows with equal keys open; here
  they keep the order in which the table yields them (\<open>sort_key\<close> is a stable sort), so
  that every order the executor may produce is the order of some table.
\<close>

definition order_by_amount_desc :: "bid list \<Rightarrow> bid list" where
  "order_by_amount_desc bs = sort_key (\<lambda>b. - amount b) bs"

definition select_winning_bid :: "bid list \<Rightarrow> uuid \<Rightarrow> bid option" where
  "select_winning_bid bs aid =
     (case take 1 (order_by_amount_desc (filter (\<lambda>b. auction_id b = aid) bs)) of
        [] \<Rightarrow> None
      | wb # _ \<Rightarrow> Some wb)"

text \<open>
  \<^verbatim>\<open>winning_bid IS NOT NULL\<close> on the record that the query filled: every column of the row
  is not NULL. The columns other than the two timestamps are declared NOT NULL.
\<close>

definition is_not_null :: "bid \<Rightarrow> bool" where
  "is_not_null wb \<longleftrightarrow> created_at wb \<noteq> None \<and> updated_at wb \<noteq> None"

text \<open>The scalar subqueries \<^verbatim>\<open>(SELECT title | seller_id FROM public.products WHERE id = ...)\<close>.\<close>

definition select_product :: "product list \<Rightarrow> uuid \<Rightarrow> product option" where
  "select_product ps pid = find (\<lambda>p. p_id p = pid) ps"

text \<open>The row of an auction, by primary key.\<close>

definition select_auction :: "auction list \<Rightarrow> uuid \<Rightarrow> auction option" where
  "select_auction as aid = find (\<lambda>a. a_id a = aid) as"

text \<open>The columns that \<^verbatim>\<open>UPDATE public.auctions SET winner_id = ..., winning_bid_id = ...\<close> sets.\<close>

definition set_winner :: "bid \<Rightarrow> auction \<Rightarrow> auction" where
  "set_winner wb a = a\<lparr>winner_id := Some (bidder_id wb), winning_bid_id := Some (b_id wb)\<rparr>"

definition winner_notification :: "bid \<Rightarrow> product \<Rightarrow> notification" where
  "winner_notification wb p =
     \<lparr>user_id = bidder_id wb, n_title = ''Auction Won!'',
      message = [Str ''Congratulations! You won the auction for item: '', Str (title p)]\<rparr>"

definition seller_notification :: "bid \<Rightarrow> product \<Rightarrow> notification" where
  "seller_notification wb p =
     \<lparr>user_id = seller_id p, n_title = ''Auction Ended'',
      message = [Str ''Your auction has ended with a winning bid of $'', Dec (amount wb)]\<rparr>"

text \<open>The CASE expression of \<^verbatim>\<open>check_auction_status()\<close>, on the row that its UPDATE visits.\<close>

definition status_case :: "timestamptz \<Rightarrow> auction \<Rightarrow> auction_status" where
  "status_case now a =
     (if now \<ge> end_time a then Ended
      else if now \<ge> start_time a then Active
      else status a)"

text \<open>
  An UPDATE of the row \<open>aid\<close> of table auctions and the two triggers on the table, which
  call each other through it.

  \<open>update_auctions depth r now f aid db\<close> is the statement
  \<^verbatim>\<open>UPDATE public.auctions SET ... WHERE id = aid\<close> run for role \<open>r\<close>, \<open>f\<close> giving the new row
  from the old one and \<open>now\<close> being the value of \<^verbatim>\<open>now()\<close> in the transaction. A signed-in
  user has no UPDATE policy, so the statement finds no row. For the row it updates the
  statement fires the AFTER UPDATE row triggers in the order of their names, with \<open>old\<close>
  and \<open>new\<close> the row before and after: \<^verbatim>\<open>determine_winner_trigger\<close>, then
  \<^verbatim>\<open>update_auction_status\<close>. The triggers have no WHEN clause and fire also when no column
  has changed.

  \<open>determine_auction_winner\<close> and \<open>check_auction_status\<close> are the two trigger functions.
  Each statement of a trigger function runs one level deeper on the stack of the server;
  \<open>depth\<close> is the number of levels left, and a statement for which none is left fails
  with \<^verbatim>\<open>stack depth limit exceeded\<close>. A failure anywhere makes the statement at the top fail.
\<close>

fun update_auctions ::
    "nat \<Rightarrow> role \<Rightarrow> timestamptz \<Rightarrow> (auction \<Rightarrow> auction) \<Rightarrow> uuid \<Rightarrow> database \<Rightarrow> sql_error + database"
  and determine_auction_winner ::
    "nat \<Rightarrow> role \<Rightarrow> timestamptz \<Rightarrow> auction \<Rightarrow> auction \<Rightarrow> database \<Rightarrow> sql_error + database"
  and check_auction_status ::
    "nat \<Rightarrow> role \<Rightarrow> timestamptz \<Rightarrow> auction \<Rightarrow> database \<Rightarrow> sql_error + database"
where
  "update_auctions 0 r now f aid db = Inl Stack_depth_limit_exceeded"
| "update_auctions (Suc depth) r now f aid db =
     (case (case r of Authenticated uid \<Rightarrow> None
                    | Service_role \<Rightarrow> select_auction (auctions db) aid) of
        None \<Rightarrow> Inr db
      | Some old \<Rightarrow>
          (case determine_auction_winner depth r now old (f old)
                  (db\<lparr>auctions := map (\<lambda>a. if a_id a = aid then f a else a) (auctions db)\<rparr>) of
             Inl e \<Rightarrow> Inl e
           | Inr db' \<Rightarrow> check_auction_status depth r now (f old) db'))"
| "determine_auction_winner depth r now old new db =
     (if status new = Ended \<and> status old = Active then
        (case select_winning_bid (visible_bids r (bids db)) (a_id new) of
           None \<Rightarrow> Inr db
         | Some wb \<Rightarrow>
             if is_not_null wb then
               (case update_auctions depth r now (set_winner wb) (a_id new) db of
                  Inl e \<Rightarrow> Inl e
                | Inr db' \<Rightarrow>
                    (case select_product (products db') (product_id new) of
                       None \<Rightarrow> Inl Not_null_violation
                     | Some p \<Rightarrow>
                         Inr (db'\<lparr>notifications := notifications db'
                                   @ [winner_notification wb p, seller_notification wb p]\<rparr>)))
             else Inr db)
      else Inr db)"
| "check_auction_status depth r now new db =
     update_auctions depth r now (\<lambda>a. a\<lparr>status := status_case now a\<rparr>) (a_id new) db"

section \<open>Inserts\<close>

text \<open>
  \<^verbatim>\<open>INSERT INTO public.products\<close> and \<^verbatim>\<open>INSERT INTO public.auctions\<close> of one row, run for
  role \<open>r\<close>. The insert into auctions fires \<^verbatim>\<open>update_auction_status\<close> (AFTER INSERT), one
  level deeper.
\<close>

definition insert_product :: "role \<Rightarrow> product \<Rightarrow> database \<Rightarrow> sql_error + database" where
  "insert_product r p db =
     (if (case r of Authenticated uid \<Rightarrow> \<not> users_can_create_products uid p
                  | Service_role \<Rightarrow> False)
      then Inl Rls_violation
      else if p_id p \<in> set (map p_id (products db)) then Inl Unique_violation
      else Inr (db\<lparr>products := products db @ [p]\<rparr>))"

definition insert_auction ::
  "nat \<Rightarrow> role \<Rightarrow> timestamptz \<Rightarrow> auction \<Rightarrow> database \<Rightarrow> sql_error + database" where
  "insert_auction depth r now a db =
     (case depth of
        0 \<Rightarrow> Inl Stack_depth_limit_exceeded
      | Suc d \<Rightarrow>
          if (case r of Authenticated uid \<Rightarrow> \<not> sellers_can_create_auctions uid (products db) a
                      | Service_role \<Rightarrow> False)
          then Inl Rls_violation
          else if a_id a \<in> set (map a_id (auctions db)) then Inl Unique_violation
          else if select_product (products db) (product_id a) = None
          then Inl Foreign_key_violation
          else check_auction_status d r now a (db\<lparr>auctions := auctions db @ [a]\<rparr>))"

text \<open>
  \<^verbatim>\<open>supabase.from('bids').insert([{auction_id, bidder_id, amount}])\<close> by user \<open>uid\<close>: the
  columns not given take their defaults, \<^verbatim>\<open>id\<close> the value \<open>fresh\<close> of
  \<^verbatim>\<open>gen_random_uuid()\<close>, \<^verbatim>\<open>created_at\<close> and \<^verbatim>\<open>updated_at\<close> the value of \<^verbatim>\<open>now()\<close>; the row is
  stored when the INSERT policy accepts it. Table bids has no trigger.
\<close>

definition insert_bid ::
  "uuid \<Rightarrow> timestamptz \<Rightarrow> uuid \<Rightarrow> uuid \<Rightarrow> uuid \<Rightarrow> decimal \<Rightarrow> database \<Rightarrow> sql_error + database" where
  "insert_bid uid now fresh aid bidder amt db =
     (let b = \<lparr>b_id = fresh, auction_id = aid, bidder_id = bidder, amount = amt,
                created_at = Some now, updated_at = Some now\<rparr>
      in if users_can_create_bids uid now (auctions db) b
         then Inr (db\<lparr>bids := bids db @ [b]\<rparr>)
         else Inl Rls_violation)"

section \<open>The page that creates an auction\<close>

text \<open>
  \<^verbatim>\<open>handleSubmit\<close> of \<^verbatim>\<open>src/pages/CreateAuction.tsx\<close>. \<open>auction_form\<close> is the state of the form;
  the start price is \<open>None\<close> for an empty field (a text that is not a number is left out),
  the duration is in days. \<open>js_blank s\<close> is \<^verbatim>\<open>!s.trim()\<close> for the white space of ASCII. The
  page inserts the product, then the auction with status \<^verbatim>\<open>'active'\<close>, start time now and no
  settlement column, in two requests: when the second fails the product stays. The result
  is the database after the call; a failure shows as a message of the page only.
\<close>

record auction_form =
  f_title :: string
  f_description :: string
  f_startPrice :: "decimal option"
  f_duration :: int
  f_images :: "string list"
  f_sealedBidding :: bool

definition js_blank :: "string \<Rightarrow> bool" where
  "js_blank s \<longleftrightarrow>
     list_all (\<lambda>c. c \<in> set [CHR '' '', CHR 0x09, CHR 0x0A, CHR 0x0B, CHR 0x0C, CHR 0x0D]) s"

definition createAuction ::
  "nat \<Rightarrow> uuid option \<Rightarrow> timestamptz \<Rightarrow> uuid \<Rightarrow> uuid \<Rightarrow> auction_form \<Rightarrow> database \<Rightarrow> database" where
  "createAuction depth user now fresh_product fresh_auction form db =
     (case user of
        None \<Rightarrow> db
      | Some uid \<Rightarrow>
          (case f_startPrice form of
             None \<Rightarrow> db
           | Some price \<Rightarrow>
               if js_blank (f_title form) \<or> js_blank (f_description form) \<or> f_images form = []
               then db
               else
                 (case insert_product (Authenticated uid)
                         \<lparr>p_id = fresh_product, seller_id = uid, title = f_title form\<rparr> db of
                    Inl e \<Rightarrow> db
                  | Inr db1 \<Rightarrow>
                      database_after db1
                        (insert_auction depth (Authenticated uid) now
                           \<lparr>a_id = fresh_auction, product_id = fresh_product,
                            start_price = price, start_time = now,
                            end_time = now + f_duration form * 86400,
                            status = Active, winner_id = None, winning_bid_id = None,
                            sealed_bidding = f_sealedBidding form\<rparr> db1))))"

section \<open>The auction page\<close>

text \<open>
  \<^verbatim>\<open>src/pages/AuctionDetail.tsx\<close>. \<open>auction_view\<close> is the interface \<^verbatim>\<open>Auction\<close> of the page,
  \<open>component\<close> the state of the component (\<^verbatim>\<open>auction\<close>, \<^verbatim>\<open>bidAmount\<close>, \<^verbatim>\<open>error\<close>). A JavaScript
  number is taken as a rational. An error is what the page passes to \<^verbatim>\<open>setError\<close>.
\<close>

record auction_view =
  v_id :: uuid
  v_product :: "product option"
  v_start_price :: decimal
  v_end_time :: timestamptz
  v_status :: auction_status
  highest_bid :: "decimal option"
  v_sealed_bidding :: bool

datatype ui_error = Please_sign_in | Bid_must_be_higher | Fetch_failed | Place_bid_failed

record component =
  auction :: "auction_view option"
  bidAmount :: decimal
  error :: "ui_error option"

text \<open>\<^verbatim>\<open>x || d\<close> on an optional number: \<^verbatim>\<open>undefined\<close> and \<^verbatim>\<open>0\<close> are falsy.\<close>

definition js_or :: "decimal option \<Rightarrow> decimal \<Rightarrow> decimal" where
  "js_or x d = (case x of None \<Rightarrow> d | Some h \<Rightarrow> if h = 0 then d else h)"

text \<open>
  \<^verbatim>\<open>supabase.from('bids').select('amount').eq('auction_id', id)
  .order('amount', {ascending: false}).limit(1)\<close>, run for user \<open>uid\<close>: the SELECT policy
  filters the rows first.
\<close>

definition select_highest_amount :: "uuid \<Rightarrow> uuid \<Rightarrow> bid list \<Rightarrow> decimal list" where
  "select_highest_amount uid aid bs =
     map amount (take 1 (order_by_amount_desc
       (filter (\<lambda>b. auction_id b = aid) (filter (users_can_view_own_bids uid) bs))))"

text \<open>
  \<^verbatim>\<open>fetchAuctionDetails\<close>: \<^verbatim>\<open>.single()\<close> fails when no auction has the id, and the page keeps
  its state but for the error.
\<close>

definition fetchAuctionDetails :: "uuid \<Rightarrow> uuid \<Rightarrow> database \<Rightarrow> component \<Rightarrow> component" where
  "fetchAuctionDetails uid aid db st =
     (case select_auction (auctions db) aid of
        None \<Rightarrow> st\<lparr>error := Some Fetch_failed\<rparr>
      | Some a \<Rightarrow>
          (let top = select_highest_amount uid aid (bids db) in
           st\<lparr>auction := Some
                 \<lparr>v_id = a_id a,
                  v_product = select_product (products db) (product_id a),
                  v_start_price = start_price a,
                  v_end_time = end_time a,
                  v_status = status a,
                  highest_bid = Some (case top of [] \<Rightarrow> start_price a | x # _ \<Rightarrow> x),
                  v_sealed_bidding = sealed_bidding a\<rparr>,
               bidAmount := (case top of [] \<Rightarrow> start_price a | x # _ \<Rightarrow> x + 1)\<rparr>))"

text \<open>
  \<^verbatim>\<open>handleBidSubmit\<close>, for the signed-in \<open>user\<close> (if any) on the page of auction \<open>aid\<close>.
  \<open>Inl e\<close> is an early return or a caught error after \<^verbatim>\<open>setError\<close>, with nothing stored;
  \<open>Inr\<close> carries the refreshed page and the database with the new bid.
\<close>

definition handleBidSubmit ::
  "uuid option \<Rightarrow> uuid \<Rightarrow> timestamptz \<Rightarrow> uuid \<Rightarrow> database \<Rightarrow> component
     \<Rightarrow> ui_error + component \<times> database" where
  "handleBidSubmit user aid now fresh db st =
     (case user of
        None \<Rightarrow> Inl Please_sign_in
      | Some uid \<Rightarrow>
          (case auction st of
             None \<Rightarrow> Inl Bid_must_be_higher
           | Some v \<Rightarrow>
               if bidAmount st \<le> js_or (highest_bid v) (v_start_price v)
               then Inl Bid_must_be_higher
               else (case insert_bid uid now fresh aid uid (bidAmount st) db of
                       Inl e \<Rightarrow> Inl Place_bid_failed
                     | Inr db' \<Rightarrow> Inr ((fetchAuctionDetails uid aid db' st)\<lparr>error := None\<rparr>, db'))))"

section \<open>The statements that reach the database\<close>

text \<open>
  What changes the tables: the two pages above, and an UPDATE of a row of table auctions
  by whatever role, with whatever new values and at whatever time. The repository has no
  other statement on these tables; an UPDATE is how a close, a cancel or a scheduler tick
  reaches the table. \<open>step\<close> gives the database after an operation.
\<close>

datatype operation =
    Create_auction nat "uuid option" timestamptz uuid uuid auction_form
  | Submit_bid "uuid option" uuid timestamptz uuid component
  | Update_auctions nat role timestamptz "auction \<Rightarrow> auction" uuid

fun step :: "operation \<Rightarrow> database \<Rightarrow> database" where
  "step (Create_auction depth user now fresh_product fresh_auction form) db =
     createAuction depth user now fresh_product fresh_auction form db"
| "step (Submit_bid user aid now fresh st) db =
     (case handleBidSubmit user aid now fresh db st of
        Inl e \<Rightarrow> db
      | Inr (st', db') \<Rightarrow> db')"
| "step (Update_auctions depth r now f aid) db =
     database_after db (update_auctions depth r now f aid db)"



section \<open>WebSocketService\<close>

text \<open>
  \<^verbatim>\<open>src/lib/websocket.ts\<close>. The realtime client of supabase-js is not part of the
  repository: the service is modelled by the \<^verbatim>\<open>Map\<close> it holds, \<open>channels\<close>, and by the
  calls it has made to the client, \<open>calls\<close>, in their order. A channel object is known by
  a number; \<open>obj\<close> is the object that \<^verbatim>\<open>supabase.channel(...)\<close> hands to the subscribing
  method. Both subscribe methods return the function that unsubscribes, with the new
  state.
\<close>

record channel =
  topic :: string
  event :: string
  table :: string
  filter_expr :: string

datatype client_call = Subscribe nat channel | Unsubscribe nat

record websocket_service =
  calls :: "client_call list"
  channels :: "string \<rightharpoonup> nat"

definition unsubscribeFromChannel :: "string \<Rightarrow> websocket_service \<Rightarrow> websocket_service" where
  "unsubscribeFromChannel channelKey s =
     (case channels s channelKey of
        None \<Rightarrow> s
      | Some c \<Rightarrow> s\<lparr>calls := calls s @ [Unsubscribe c],
                     channels := (channels s)(channelKey := None)\<rparr>)"

definition unsubscribeFromAuction :: "string \<Rightarrow> websocket_service \<Rightarrow> websocket_service" where
  "unsubscribeFromAuction auctionId s = unsubscribeFromChannel (''auction:'' @ auctionId) s"

definition subscribeToAuction ::
  "nat \<Rightarrow> string \<Rightarrow> websocket_service
     \<Rightarrow> (websocket_service \<Rightarrow> websocket_service) \<times> websocket_service" where
  "subscribeToAuction obj auctionId s =
     (unsubscribeFromAuction auctionId,
      s\<lparr>calls := calls s @
           [Subscribe obj \<lparr>topic = ''auction:'' @ auctionId, event = ''*'', table = ''bids'',
                           filter_expr = ''auction_id=eq.'' @ auctionId\<rparr>],
        channels := (channels s)(auctionId \<mapsto> obj)\<rparr>)"

definition subscribeToAuctionStatus ::
  "nat \<Rightarrow> string \<Rightarrow> websocket_service
     \<Rightarrow> (websocket_service \<Rightarrow> websocket_service) \<times> websocket_service" where
  "subscribeToAuctionStatus obj auctionId s =
     (let channelKey = ''auction-status:'' @ auctionId
      in (unsubscribeFromChannel channelKey,
          s\<lparr>calls := calls s @
               [Subscribe obj \<lparr>topic = channelKey, event = ''UPDATE'', table = ''auctions'',
                               filter_expr = ''id=eq.'' @ auctionId\<rparr>],
            channels := (channels s)(channelKey \<mapsto> obj)\<rparr>))"

text \<open>
  Not code of the repository: how the realtime client of supabase-js answers the calls.
  A channel that subscribes makes the client leave the channel of the same topic that is
  still joined; \<^verbatim>\<open>unsubscribe()\<close> leaves the channel. \<open>joined_channels cs\<close> lists the channel
  objects that are joined after the calls \<open>cs\<close>, each with its topic.
\<close>

fun client_call_effect :: "client_call \<Rightarrow> (nat \<times> string) list \<Rightarrow> (nat \<times> string) list" where
  "client_call_effect (Subscribe c ch) js = filter (\<lambda>j. snd j \<noteq> topic ch) js @ [(c, topic ch)]"
| "client_call_effect (Unsubscribe c) js = filter (\<lambda>j. fst j \<noteq> c) js"

definition joined_channels :: "client_call list \<Rightarrow> (nat \<times> string) list" where
  "joined_channels cs = fold client_call_effect cs []"

section \<open>Example data\<close>

text \<open>
  One product of seller 9 and its auction 1 with start price 100, open from time 0 to
  time 100; two bids of 150 on it, the one of bidder 7 created after the one of bidder 8.
\<close>

definition ex_product :: product where
  "ex_product = \<lparr>p_id = 1, seller_id = 9, title = ''Vase''\<rparr>"

definition ex_auction :: "auction_status \<Rightarrow> auction" where
  "ex_auction st =
     \<lparr>a_id = 1, product_id = 1, start_price = 100, start_time = 0, end_time = 100,
      status = st, winner_id = None, winning_bid_id = None, sealed_bidding = True\<rparr>"

definition bid_early :: bid where
  "bid_early = \<lparr>b_id = 22, auction_id = 1, bidder_id = 8, amount = 150,
                created_at = Some 90, updated_at = Some 90\<rparr>"

definition bid_late :: bid where
  "bid_late = \<lparr>b_id = 21, auction_id = 1, bidder_id = 7, amount = 150,
               created_at = Some 95, updated_at = Some 95\<rparr>"

definition tie_db :: database where
  "tie_db = \<lparr>products = [ex_product], auctions = [ex_auction Active],
             bids = [bid_late, bid_early], notifications = []\<rparr>"

definition settled_auction :: auction where
  "settled_auction = (ex_auction Ended)\<lparr>winner_id := Some 7, winning_bid_id := Some 21\<rparr>"

definition settled_db :: database where
  "settled_db = \<lparr>products = [ex_product], auctions = [settled_auction],
                 bids = [bid_late, bid_early],
                 notifications = [winner_notification bid_late ex_product,
                                  seller_notification bid_late ex_product]\<rparr>"

definition cancelled_db :: database where
  "cancelled_db = \<lparr>products = [ex_product], auctions = [ex_auction Cancelled],
                   bids = [bid_early], notifications = []\<rparr>"

definition open_db :: database where
  "open_db = \<lparr>products = [ex_product], auctions = [ex_auction Active],
              bids = [], notifications = []\<rparr>"

definition empty_db :: database where
  "empty_db = \<lparr>products = [], auctions = [], bids = [], notifications = []\<rparr>"

definition bid_150_by :: "uuid \<Rightarrow> uuid \<Rightarrow> timestamptz \<Rightarrow> bid" where
  "bid_150_by fresh uid t =
     \<lparr>b_id = fresh, auction_id = 1, bidder_id = uid, amount = 150,
      created_at = Some t, updated_at = Some t\<rparr>"

definition blank :: component where
  "blank = \<lparr>auction = None, bidAmount = 0, error = None\<rparr>"

text \<open>The page of auction 1 as user \<open>uid\<close> loads it from \<open>db\<close>, with \<open>amt\<close> typed as the bid.\<close>

definition page :: "uuid \<Rightarrow> database \<Rightarrow> decimal \<Rightarrow> component" where
  "page uid db amt = (fetchAuctionDetails uid 1 db blank)\<lparr>bidAmount := amt\<rparr>"

definition ex_view :: "decimal \<Rightarrow> auction_view" where
  "ex_view h = \<lparr>v_id = 1, v_product = Some ex_product, v_start_price = 100, v_end_time = 100,
               v_status = Active, highest_bid = Some h, v_sealed_bidding = True\<rparr>"

definition stored_bids :: "ui_error + component \<times> database \<Rightarrow> ui_error + bid list" where
  "stored_bids r = map_sum id (bids \<circ> snd) r"

text \<open>A form for a second auction, of seller 5, and statements that set a status.\<close>

definition ex_form :: auction_form where
  "ex_form = \<lparr>f_title = ''Lamp'', f_description = ''Brass'', f_startPrice = Some 20,
              f_duration = 7, f_images = [''https://example.org/lamp.png''],
              f_sealedBidding = True\<rparr>"

definition set_status :: "auction_status \<Rightarrow> auction \<Rightarrow> auction" where
  "set_status st a = a\<lparr>status := st\<rparr>"

text \<open>
  Three attempts to change the status of auction 1, and a run of the pages: seller 5
  creates auction 2 at time 10, user 7 bids 30 on it at time 20, and the service role
  tries to close it after its end.
\<close>

definition status_attempts :: "operation list" where
  "status_attempts =
     [Update_auctions 3 Service_role 200 (set_status Ended) 1,
      Update_auctions 3 (Authenticated 9) 200 (set_status Ended) 1,
      Update_auctions 3 Service_role 250 (set_status Active) 1]"

definition ex_page :: component where
  "ex_page = \<lparr>auction = Some (ex_view 20), bidAmount = 30, error = None\<rparr>"

definition ex_operations :: "operation list" where
  "ex_operations =
     [Create_auction 3 (Some 5) 10 2 2 ex_form,
      Submit_bid (Some 7) 2 20 23 ex_page,
      Update_auctions 3 Service_role 700000 (set_status Ended) 2]"

definition no_channels :: websocket_service where
  "no_channels = \<lparr>calls = [], channels = Map.empty\<rparr>"

lemmas trigger_defs = select_winning_bid_def order_by_amount_desc_def visible_bids_def
  is_not_null_def select_product_def select_auction_def set_winner_def
  winner_notification_def seller_notification_def status_case_def database_after_def

lemmas client_defs = users_can_view_own_bids_def users_can_create_bids_def
  sellers_can_create_auctions_def users_can_create_products_def insert_product_def
  insert_auction_def insert_bid_def js_blank_def createAuction_def js_or_def
  select_highest_amount_def fetchAuctionDetails_def handleBidSubmit_def

lemmas ex_defs = ex_product_def ex_auction_def bid_early_def bid_late_def tie_db_def
  settled_auction_def settled_db_def cancelled_db_def open_db_def empty_db_def
  bid_150_by_def blank_def page_def ex_view_def stored_bids_def ex_form_def set_status_def
  status_attempts_def ex_page_def ex_operations_def no_channels_def

section \<open>The highest bid\<close>

declare update_auctions.simps [simp del]
declare determine_auction_winner.simps [simp del]
declare check_auction_status.simps [simp del]

lemma order_by_amount_desc_head:
  assumes "order_by_amount_desc bs = wb # rest"
  shows "wb \<in> set bs \<and> (\<forall>b\<in>set bs. amount b \<le> amount wb)"
proof -
  have "sorted (map (\<lambda>b. - amount b) (wb # rest))"
    using sorted_sort_key [of "\<lambda>b. - amount b" bs] assms
    unfolding order_by_amount_desc_def by simp
  then have r: "\<forall>b\<in>set rest. amount b \<le> amount wb"
    by simp
  have e: "set bs = insert wb (set rest)"
    using set_sort [of "\<lambda>b. - amount b" bs] assms
    unfolding order_by_amount_desc_def by simp
  show ?thesis
    unfolding e using r by simp
qed

lemma select_winning_bid_Some:
  assumes "select_winning_bid bs aid = Some wb"
  shows "wb \<in> set bs \<and> auction_id wb = aid \<and>
         (\<forall>b\<in>set bs. auction_id b = aid \<longrightarrow> amount b \<le> amount wb)"
proof -
  let ?fs = "filter (\<lambda>b. auction_id b = aid) bs"
  from assms obtain rest where "order_by_amount_desc ?fs = wb # rest"
    by (cases "order_by_amount_desc ?fs") (auto simp: select_winning_bid_def)
  from order_by_amount_desc_head [OF this] show ?thesis by auto
qed

lemma select_winning_bid_None:
  "select_winning_bid bs aid = None \<longleftrightarrow> (\<forall>b\<in>set bs. auction_id b \<noteq> aid)"
proof -
  let ?fs = "filter (\<lambda>b. auction_id b = aid) bs"
  have "select_winning_bid bs aid = None \<longleftrightarrow> order_by_amount_desc ?fs = []"
    by (cases "order_by_amount_desc ?fs") (auto simp: select_winning_bid_def)
  also have "\<dots> \<longleftrightarrow> ?fs = []"
    using length_sort [of "\<lambda>b. - amount b" ?fs]
    unfolding order_by_amount_desc_def by (simp only: length_0_conv [symmetric])
  also have "\<dots> \<longleftrightarrow> (\<forall>b\<in>set bs. auction_id b \<noteq> aid)"
    by (auto simp: filter_empty_conv)
  finally show ?thesis .
qed

text \<open>
  Claim C1, as the query has it. When the auction has at least one bid, the query by
  which \<open>determine_auction_winner\<close> selects the winning bid returns a bid of that auction
  whose amount is the maximum of the amounts of its bids. Which bid of several with the
  maximal amount it returns is left to the order of the rows; neither \<^verbatim>\<open>created_at\<close> nor
  the bid id is a sort key.
\<close>

theorem winning_bid_has_maximum_amount:
  assumes "b0 \<in> set (bids db)" and "auction_id b0 = a_id new"
  shows "\<exists>wb. select_winning_bid (visible_bids Service_role (bids db)) (a_id new) = Some wb
           \<and> wb \<in> set (bids db) \<and> auction_id wb = a_id new
           \<and> (\<forall>b\<in>set (bids db). auction_id b = a_id new \<longrightarrow> amount b \<le> amount wb)"
proof -
  from assms have "select_winning_bid (bids db) (a_id new) \<noteq> None"
    by (auto simp: select_winning_bid_None)
  then obtain wb where wb: "select_winning_bid (bids db) (a_id new) = Some wb"
    by auto
  from wb select_winning_bid_Some [OF wb] show ?thesis
    by (intro exI [of _ wb]) (simp add: visible_bids_def)
qed

text \<open>The statement of C1 at \<open>tie_db\<close>, where both bids have the maximal amount 150.\<close>

theorem winning_bid_has_maximum_amount_witness:
  "bid_early \<in> set (bids tie_db) \<and> auction_id bid_early = a_id (ex_auction Ended)
   \<and> (\<exists>wb. select_winning_bid (visible_bids Service_role (bids tie_db)) (a_id (ex_auction Ended))
               = Some wb
          \<and> (wb = bid_late \<or> wb = bid_early)
          \<and> amount bid_late \<le> amount wb \<and> amount bid_early \<le> amount wb)"
proof -
  have h: "bid_early \<in> set (bids tie_db)" "auction_id bid_early = a_id (ex_auction Ended)"
    by (simp_all add: ex_defs)
  from winning_bid_has_maximum_amount [OF h]
  obtain wb where r: "select_winning_bid (visible_bids Service_role (bids tie_db))
        (a_id (ex_auction Ended)) = Some wb"
    "wb \<in> set (bids tie_db)"
    "\<forall>b\<in>set (bids tie_db). auction_id b = a_id (ex_auction Ended) \<longrightarrow> amount b \<le> amount wb"
    by blast
  have b: "bids tie_db = [bid_late, bid_early]"
    by (simp add: tie_db_def)
  have i: "auction_id bid_late = a_id (ex_auction Ended)"
    "auction_id bid_early = a_id (ex_auction Ended)"
    by (simp_all add: ex_defs)
  from r(2) b have "wb = bid_late \<or> wb = bid_early"
    by simp
  moreover from r(3) b i have "amount bid_late \<le> amount wb" "amount bid_early \<le> amount wb"
    by simp_all
  ultimately show ?thesis
    using h r(1) by blast
qed

text \<open>
  Against claim C1 as written (ties go to the earliest \<^verbatim>\<open>created_at\<close>). In \<open>tie_db\<close> the two
  bids have the same amount; \<open>bid_late\<close> comes first in the table and has the later
  \<^verbatim>\<open>created_at\<close> (the default \<^verbatim>\<open>now()\<close> is the start time of the inserting transaction, not
  the time at which the row reaches the table). The query returns \<open>bid_late\<close> of bidder 7,
  not the earlier bid of bidder 8.
\<close>

theorem later_bid_selected_in_tie:
  "select_winning_bid (visible_bids Service_role (bids tie_db)) (a_id (ex_auction Ended))
     = Some bid_late
   \<and> bids tie_db = [bid_late, bid_early]
   \<and> amount bid_early = amount bid_late
   \<and> created_at bid_early = Some 90 \<and> created_at bid_late = Some 95
   \<and> bidder_id bid_late = 7 \<and> bidder_id bid_early = 8"
  by (simp add: ex_defs trigger_defs)

section \<open>Updates of table auctions\<close>

text \<open>
  A signed-in user updates no row. For the service role an UPDATE that finds its row
  never ends well: \<^verbatim>\<open>update_auction_status\<close> fires for the row, its function updates the
  row again, and so on until no level of the stack is left; the statement fails and is
  rolled back, whatever the depth of the stack.
\<close>

lemma select_auction_map:
  assumes "select_auction as aid = Some old"
  shows "select_auction (map (\<lambda>a. if a_id a = aid then f a else a) as) (a_id (f old)) \<noteq> None"
proof -
  from assms have "old \<in> set as" and "a_id old = aid"
    unfolding select_auction_def by (auto simp: find_Some_iff)
  then have "f old \<in> set (map (\<lambda>a. if a_id a = aid then f a else a) as)"
    unfolding set_map by (intro image_eqI [where x = old]) simp_all
  then show ?thesis
    unfolding select_auction_def by (auto simp: find_None_iff)
qed

lemma update_auctions_authenticated:
  "update_auctions depth (Authenticated uid) now f aid db =
     (if depth = 0 then Inl Stack_depth_limit_exceeded else Inr db)"
  by (cases depth) (simp_all add: update_auctions.simps)

lemma update_auctions_no_row:
  "select_auction (auctions db) aid = None \<Longrightarrow>
     update_auctions depth r now f aid db =
       (if depth = 0 then Inl Stack_depth_limit_exceeded else Inr db)"
  by (cases depth; cases r) (simp_all add: update_auctions.simps)

lemma update_auctions_service_role:
  "select_auction (auctions db) aid \<noteq> None \<Longrightarrow>
     update_auctions depth Service_role now f aid db = Inl Stack_depth_limit_exceeded"
proof (induction depth arbitrary: f aid db)
  case 0
  show ?case by (simp add: update_auctions.simps)
next
  case (Suc depth)
  from Suc.prems obtain old where old: "select_auction (auctions db) aid = Some old"
    by auto
  let ?db1 = "db\<lparr>auctions := map (\<lambda>a. if a_id a = aid then f a else a) (auctions db)\<rparr>"
  have row: "select_auction (auctions ?db1) (a_id (f old)) \<noteq> None"
    using select_auction_map [OF old] by simp
  have nested: "update_auctions depth Service_role now g (a_id (f old)) ?db1
                  = Inl Stack_depth_limit_exceeded" for g
    by (rule Suc.IH [OF row])
  have det: "determine_auction_winner depth Service_role now old (f old) ?db1 = Inr ?db1
           \<or> determine_auction_winner depth Service_role now old (f old) ?db1
               = Inl Stack_depth_limit_exceeded"
    by (simp add: determine_auction_winner.simps nested split: option.split)
  have chk: "check_auction_status depth Service_role now (f old) ?db1 = Inl Stack_depth_limit_exceeded"
    by (simp add: check_auction_status.simps nested)
  from det chk old show ?case
    by (auto simp: update_auctions.simps)
qed

lemma database_after_update_auctions:
  "database_after db (update_auctions depth r now f aid db) = db"
proof (cases r)
  case (Authenticated uid)
  then show ?thesis
    by (simp add: update_auctions_authenticated database_after_def)
next
  case Service_role
  show ?thesis
  proof (cases "select_auction (auctions db) aid")
    case None
    then show ?thesis
      by (simp add: update_auctions_no_row database_after_def)
  next
    case (Some old)
    then show ?thesis
      by (simp add: Service_role update_auctions_service_role database_after_def)
  qed
qed

text \<open>
  Claim C2. Settlement is reached only through an UPDATE of the auction, which fires
  \<open>determine_auction_winner\<close>. Whatever the database (so also when the auction is already
  settled), the role, the depth of the stack, the time and the new values, the database
  after the statement has the rows of table auctions and of table notifications that it
  had before: no winner column is written and no notification is added. The statement
  either finds no row to update or fails with \<^verbatim>\<open>stack depth limit exceeded\<close>.
\<close>

theorem settlement_never_repeated:
  "auctions (database_after db (update_auctions depth r now f aid db)) = auctions db
   \<and> notifications (database_after db (update_auctions depth r now f aid db)) = notifications db
   \<and> (update_auctions depth r now f aid db = Inr db
        \<or> update_auctions depth r now f aid db = Inl Stack_depth_limit_exceeded)"
proof -
  have "update_auctions depth r now f aid db = Inr db
        \<or> update_auctions depth r now f aid db = Inl Stack_depth_limit_exceeded"
  proof (cases r)
    case (Authenticated uid)
    then show ?thesis by (simp add: update_auctions_authenticated)
  next
    case Service_role
    show ?thesis
    proof (cases "select_auction (auctions db) aid")
      case None
      then show ?thesis by (simp add: update_auctions_no_row)
    next
      case (Some old)
      then show ?thesis by (simp add: Service_role update_auctions_service_role)
    qed
  qed
  then show ?thesis
    by (simp add: database_after_update_auctions)
qed

text \<open>
  The statement of C2 for a second close of the settled auction of \<open>settled_db\<close> by the
  service role.
\<close>

theorem settlement_never_repeated_witness:
  "auctions (database_after settled_db
       (update_auctions 3 Service_role 200 (set_status Ended) 1 settled_db)) = [settled_auction]
   \<and> notifications (database_after settled_db
       (update_auctions 3 Service_role 200 (set_status Ended) 1 settled_db))
       = [winner_notification bid_late ex_product, seller_notification bid_late ex_product]
   \<and> update_auctions 3 Service_role 200 (set_status Ended) 1 settled_db
       = Inl Stack_depth_limit_exceeded"
proof -
  have "update_auctions 3 Service_role 200 (set_status Ended) 1 settled_db \<noteq> Inr settled_db"
    by (simp add: update_auctions_service_role settled_db_def select_auction_def
          settled_auction_def ex_auction_def)
  with settlement_never_repeated [of settled_db 3 Service_role 200 "set_status Ended" 1]
  show ?thesis
    by (simp add: settled_db_def database_after_def)
qed

section \<open>What the operations change\<close>




lemma insert_bid_Inr:
  assumes "insert_bid uid now fresh aid bidder amt db = Inr db'"
  shows "uid = bidder
       \<and> (\<exists>a\<in>set (auctions db). a_id a = aid \<and> status a = Active \<and> now < end_time a)
       \<and> db' = db\<lparr>bids := bids db @
            [\<lparr>b_id = fresh, auction_id = aid, bidder_id = bidder, amount = amt,
              created_at = Some now, updated_at = Some now\<rparr>]\<rparr>"
  using assms
  by (simp add: insert_bid_def users_can_create_bids_def Let_def split: if_splits)

lemma handleBidSubmit_Inr:
  assumes "handleBidSubmit user aid now fresh db st = Inr (st', db')"
  obtains uid v where "user = Some uid" and "auction st = Some v"
    and "js_or (highest_bid v) (v_start_price v) < bidAmount st"
    and "insert_bid uid now fresh aid uid (bidAmount st) db = Inr db'"
    and "st' = (fetchAuctionDetails uid aid db' st)\<lparr>error := None\<rparr>"
proof -
  from assms obtain uid where u: "user = Some uid"
    by (cases user) (simp_all add: handleBidSubmit_def)
  from assms u obtain v where v: "auction st = Some v"
    by (cases "auction st") (simp_all add: handleBidSubmit_def)
  from assms u v have t: "js_or (highest_bid v) (v_start_price v) < bidAmount st"
    by (simp add: handleBidSubmit_def split: if_splits)
  from assms u v t obtain db2 where i: "insert_bid uid now fresh aid uid (bidAmount st) db = Inr db2"
    by (cases "insert_bid uid now fresh aid uid (bidAmount st) db") (simp_all add: handleBidSubmit_def)
  from assms u v t i have "db2 = db'"
    by (simp add: handleBidSubmit_def)
  with i have i': "insert_bid uid now fresh aid uid (bidAmount st) db = Inr db'"
    by simp
  from assms u v t i' have "(fetchAuctionDetails uid aid db' st)\<lparr>error := None\<rparr> = st'"
    by (simp add: handleBidSubmit_def)
  then have "st' = (fetchAuctionDetails uid aid db' st)\<lparr>error := None\<rparr>"
    by (rule sym)
  with u v t i' show thesis
    by (rule that)
qed



lemma step_update_auctions: "step (Update_auctions depth r now f aid) db = db"
  by (simp add: database_after_update_auctions)













lemma ex_operations_result:
  "fold step ex_operations settled_db =
     settled_db\<lparr>products := [ex_product, \<lparr>p_id = 2, seller_id = 5, title = ''Lamp''\<rparr>],
                auctions := [settled_auction,
                  \<lparr>a_id = 2, product_id = 2, start_price = 20, start_time = 10,
                   end_time = 604810, status = Active, winner_id = None,
                   winning_bid_id = None, sealed_bidding = True\<rparr>],
                bids := [bid_late, bid_early,
                  \<lparr>b_id = 23, auction_id = 2, bidder_id = 7, amount = 30,
                   created_at = Some 20, updated_at = Some 20\<rparr>]\<rparr>"
proof -
  have "fold step ex_operations settled_db
          = step (Submit_bid (Some 7) 2 20 23 ex_page)
              (step (Create_auction 3 (Some 5) 10 2 2 ex_form) settled_db)"
    by (simp add: ex_operations_def step_update_auctions del: step.simps)
  then show ?thesis
    by (simp add: client_defs ex_defs trigger_defs check_auction_status.simps
          update_auctions_authenticated)
qed


section \<open>Admission of bids\<close>

text \<open>
  Claim C5. When \<open>handleBidSubmit\<close> stores a bid, the auctions table has a row with the id
  of the target auction, in status active, whose end time is strictly after the current
  time; the stored bid is the one new row of table bids, its \<^verbatim>\<open>created_at\<close> is the current
  time and so is strictly before that end time. The auctions table is not changed.
\<close>

theorem admitted_bid_before_end_time:
  assumes "handleBidSubmit user aid now fresh db st = Inr (st', db')"
  shows "\<exists>a b. a \<in> set (auctions db) \<and> a_id a = aid \<and> status a = Active \<and> now < end_time a
           \<and> bids db' = bids db @ [b] \<and> auction_id b = aid \<and> created_at b = Some now
           \<and> (\<exists>c. created_at b = Some c \<and> c < end_time a) \<and> auctions db' = auctions db"
proof -
  from assms obtain uid where i: "insert_bid uid now fresh aid uid (bidAmount st) db = Inr db'"
    by (rule handleBidSubmit_Inr)
  let ?b = "\<lparr>b_id = fresh, auction_id = aid, bidder_id = uid, amount = bidAmount st,
             created_at = Some now, updated_at = Some now\<rparr>"
  from insert_bid_Inr [OF i] obtain a where a: "a \<in> set (auctions db)" "a_id a = aid"
    "status a = Active" "now < end_time a" and d: "db' = db\<lparr>bids := bids db @ [?b]\<rparr>"
    by blast
  show ?thesis
    using a d by (intro exI [of _ a] exI [of _ ?b]) simp
qed

text \<open>The statement of C5 for the bid of 150 that user 7 places at time 10 on \<open>open_db\<close>.\<close>

theorem admitted_bid_before_end_time_witness:
  "handleBidSubmit (Some 7) 1 10 21 open_db (page 7 open_db 150)
     = Inr (page 7 (open_db\<lparr>bids := [bid_150_by 21 7 10]\<rparr>) 151,
            open_db\<lparr>bids := [bid_150_by 21 7 10]\<rparr>)
   \<and> (\<exists>a b. (a = ex_auction Active) \<and> a_id a = 1 \<and> status a = Active \<and> 10 < end_time a
          \<and> bids (open_db\<lparr>bids := [bid_150_by 21 7 10]\<rparr>) = bids open_db @ [b]
          \<and> created_at b = Some 10 \<and> (\<exists>c. created_at b = Some c \<and> c < end_time a))"
proof -
  have h: "handleBidSubmit (Some 7) 1 10 21 open_db (page 7 open_db 150)
     = Inr (page 7 (open_db\<lparr>bids := [bid_150_by 21 7 10]\<rparr>) 151,
            open_db\<lparr>bids := [bid_150_by 21 7 10]\<rparr>)"
    by (simp add: client_defs ex_defs trigger_defs)
  from admitted_bid_before_end_time [OF h] h show ?thesis
    by (simp add: open_db_def)
qed

text \<open>
  Claim C6, evaluated. Bidder 8 has a bid of 150 on the auction. User 7 loads the page:
  the SELECT policy shows user 7 no bid, so \<^verbatim>\<open>highest_bid\<close> is the start price 100. User 7
  then submits 120, and in a second run 150: each is stored, though neither exceeds the
  highest accepted amount 150. With no bid on the auction, an amount equal to the start
  price is turned down.
\<close>

theorem lower_bid_admitted_after_higher:
  "stored_bids (handleBidSubmit (Some 7) 1 20 22 (open_db\<lparr>bids := [bid_150_by 21 8 10]\<rparr>)
       (page 7 (open_db\<lparr>bids := [bid_150_by 21 8 10]\<rparr>) 120))
     = Inr [bid_150_by 21 8 10,
            \<lparr>b_id = 22, auction_id = 1, bidder_id = 7, amount = 120, created_at = Some 20,
             updated_at = Some 20\<rparr>]
   \<and> stored_bids (handleBidSubmit (Some 7) 1 20 22 (open_db\<lparr>bids := [bid_150_by 21 8 10]\<rparr>)
       (page 7 (open_db\<lparr>bids := [bid_150_by 21 8 10]\<rparr>) 150))
     = Inr [bid_150_by 21 8 10, bid_150_by 22 7 20]
   \<and> auction (page 7 (open_db\<lparr>bids := [bid_150_by 21 8 10]\<rparr>) 120) = Some (ex_view 100)
   \<and> handleBidSubmit (Some 7) 1 20 22 open_db (page 7 open_db 100) = Inl Bid_must_be_higher"
  by (simp add: client_defs ex_defs trigger_defs)

text \<open>
  Claim C7, as the code has it. A submission by the seller of the auctioned product is
  checked like any other: when the page holds the auction, the amount exceeds the
  threshold of the page, and the auction is active with its end time ahead, the bid of
  the seller is stored and no error is reported.
\<close>

theorem seller_bid_is_admitted:
  assumes "auction st = Some v" and "js_or (highest_bid v) (v_start_price v) < bidAmount st"
    and "a \<in> set (auctions db)" and "a_id a = aid" and "status a = Active" and "now < end_time a"
    and "select_product (products db) (product_id a) = Some p" and "seller_id p = uid"
  shows "handleBidSubmit (Some uid) aid now fresh db st =
           Inr ((fetchAuctionDetails uid aid
                   (db\<lparr>bids := bids db @ [\<lparr>b_id = fresh, auction_id = aid, bidder_id = uid,
                                              amount = bidAmount st, created_at = Some now,
      updated_at = Some now\<rparr>]\<rparr>) st)
                  \<lparr>error := None\<rparr>,
               db\<lparr>bids := bids db @ [\<lparr>b_id = fresh, auction_id = aid, bidder_id = uid,
                                        amount = bidAmount st, created_at = Some now,
      updated_at = Some now\<rparr>]\<rparr>)"
proof -
  from assms(3-6) have "\<exists>a\<in>set (auctions db). a_id a = aid \<and> status a = Active \<and> end_time a > now"
    by blast
  then have "insert_bid uid now fresh aid uid (bidAmount st) db =
      Inr (db\<lparr>bids := bids db @ [\<lparr>b_id = fresh, auction_id = aid, bidder_id = uid,
                                        amount = bidAmount st, created_at = Some now,
      updated_at = Some now\<rparr>]\<rparr>)"
    by (simp add: insert_bid_def users_can_create_bids_def)
  with assms(1,2) show ?thesis
    by (simp add: handleBidSubmit_def)
qed

text \<open>The statement of C7 for seller 9 of \<open>ex_product\<close>, bidding 150 on \<open>open_db\<close> at time 10.\<close>

theorem seller_bid_is_admitted_witness:
  "auction (page 9 open_db 150) = Some (ex_view 100)
   \<and> js_or (highest_bid (ex_view 100)) (v_start_price (ex_view 100)) < bidAmount (page 9 open_db 150)
   \<and> ex_auction Active \<in> set (auctions open_db) \<and> a_id (ex_auction Active) = 1
   \<and> status (ex_auction Active) = Active \<and> 10 < end_time (ex_auction Active)
   \<and> select_product (products open_db) (product_id (ex_auction Active)) = Some ex_product
   \<and> seller_id ex_product = 9
   \<and> handleBidSubmit (Some 9) 1 10 21 open_db (page 9 open_db 150)
       = Inr (page 9 (open_db\<lparr>bids := [bid_150_by 21 9 10]\<rparr>) 151,
              open_db\<lparr>bids := [bid_150_by 21 9 10]\<rparr>)"
proof -
  have h: "auction (page 9 open_db 150) = Some (ex_view 100)"
    "js_or (highest_bid (ex_view 100)) (v_start_price (ex_view 100)) < bidAmount (page 9 open_db 150)"
    "ex_auction Active \<in> set (auctions open_db)" "a_id (ex_auction Active) = 1"
    "status (ex_auction Active) = Active" "10 < end_time (ex_auction Active)"
    "select_product (products open_db) (product_id (ex_auction Active)) = Some ex_product"
    "seller_id ex_product = 9"
    by (simp_all add: client_defs ex_view_def ex_defs trigger_defs)
  from seller_bid_is_admitted [OF h, of 21] h show ?thesis
    by (simp add: client_defs ex_view_def ex_defs trigger_defs)
qed

text \<open>
  Against claim C7 as written (a bid of the seller fails with SelfBid and is not
  stored). User 9 is the seller of the product of auction 1 and submits 150: the bid with
  bidder 9 is stored.
\<close>

theorem seller_bids_on_own_auction:
  "stored_bids (handleBidSubmit (Some 9) 1 10 21 open_db (page 9 open_db 150))
     = Inr [bid_150_by 21 9 10]
   \<and> select_auction (auctions open_db) 1 = Some (ex_auction Active)
   \<and> select_product (products open_db) (product_id (ex_auction Active)) = Some ex_product
   \<and> seller_id ex_product = 9"
  by (simp add: client_defs ex_defs trigger_defs)

text \<open>
  Claim C9, as the code has it. The amount is compared with the \<^verbatim>\<open>highest_bid\<close> that an
  earlier \<open>fetchAuctionDetails\<close> left in the page, and the insert follows as a second
  step. So a stored bid exceeds the threshold of the page that submitted it, whatever
  table bids holds by then. The query for the highest bid of the auction then yields a
  bid whose amount is the maximum over all stored bids of the auction.
\<close>

theorem admission_against_cached_highest_bid:
  assumes "handleBidSubmit user aid now fresh db st = Inr (st', db')"
  shows "\<exists>v b wb. auction st = Some v
           \<and> js_or (highest_bid v) (v_start_price v) < bidAmount st
           \<and> bids db' = bids db @ [b] \<and> auction_id b = aid \<and> amount b = bidAmount st
           \<and> select_winning_bid (bids db') aid = Some wb
           \<and> wb \<in> set (bids db') \<and> auction_id wb = aid
           \<and> (\<forall>b'\<in>set (bids db'). auction_id b' = aid \<longrightarrow> amount b' \<le> amount wb)"
proof -
  from assms obtain uid v where v: "auction st = Some v"
      "js_or (highest_bid v) (v_start_price v) < bidAmount st"
    and i: "insert_bid uid now fresh aid uid (bidAmount st) db = Inr db'"
    by (rule handleBidSubmit_Inr)
  let ?b = "\<lparr>b_id = fresh, auction_id = aid, bidder_id = uid, amount = bidAmount st,
             created_at = Some now, updated_at = Some now\<rparr>"
  from insert_bid_Inr [OF i] have d: "bids db' = bids db @ [?b]"
    by simp
  then have "\<not> (\<forall>b\<in>set (bids db'). auction_id b \<noteq> aid)"
    by simp
  then obtain wb where w: "select_winning_bid (bids db') aid = Some wb"
    unfolding select_winning_bid_None [symmetric] by blast
  from v d w select_winning_bid_Some [OF w] show ?thesis
    by (intro exI [of _ v] exI [of _ ?b] exI [of _ wb]) simp
qed

text \<open>
  The statement of C9 for the bid of 150 by user 7, submitted from a page loaded before
  the bid of 150 by user 8 was stored.
\<close>

theorem admission_against_cached_highest_bid_witness:
  "handleBidSubmit (Some 7) 1 20 22 (open_db\<lparr>bids := [bid_150_by 21 8 10]\<rparr>) (page 7 open_db 150)
     = Inr (page 7 (open_db\<lparr>bids := [bid_150_by 21 8 10, bid_150_by 22 7 20]\<rparr>) 151,
            open_db\<lparr>bids := [bid_150_by 21 8 10, bid_150_by 22 7 20]\<rparr>)
   \<and> auction (page 7 open_db 150) = Some (ex_view 100)
   \<and> js_or (highest_bid (ex_view 100)) (v_start_price (ex_view 100)) < bidAmount (page 7 open_db 150)
   \<and> (\<exists>wb. select_winning_bid [bid_150_by 21 8 10, bid_150_by 22 7 20] 1 = Some wb
          \<and> amount (bid_150_by 21 8 10) \<le> amount wb \<and> amount (bid_150_by 22 7 20) \<le> amount wb)"
proof -
  let ?db = "open_db\<lparr>bids := [bid_150_by 21 8 10]\<rparr>"
  let ?db' = "open_db\<lparr>bids := [bid_150_by 21 8 10, bid_150_by 22 7 20]\<rparr>"
  have h: "handleBidSubmit (Some 7) 1 20 22 ?db (page 7 open_db 150)
             = Inr (page 7 ?db' 151, ?db')"
    by (simp add: client_defs ex_defs trigger_defs)
  have v: "auction (page 7 open_db 150) = Some (ex_view 100)"
    "js_or (highest_bid (ex_view 100)) (v_start_price (ex_view 100)) < bidAmount (page 7 open_db 150)"
    by (simp_all add: client_defs ex_defs trigger_defs)
  have b: "bids ?db' = [bid_150_by 21 8 10, bid_150_by 22 7 20]"
    "auction_id (bid_150_by 21 8 10) = 1" "auction_id (bid_150_by 22 7 20) = 1"
    by (simp_all add: ex_defs)
  from admission_against_cached_highest_bid [OF h]
  obtain wb where "select_winning_bid (bids ?db') 1 = Some wb"
    and "\<forall>b'\<in>set (bids ?db'). auction_id b' = 1 \<longrightarrow> amount b' \<le> amount wb"
    by blast
  with b have "\<exists>wb. select_winning_bid [bid_150_by 21 8 10, bid_150_by 22 7 20] 1 = Some wb
          \<and> amount (bid_150_by 21 8 10) \<le> amount wb \<and> amount (bid_150_by 22 7 20) \<le> amount wb"
    by (intro exI [of _ wb]) simp
  with h v show ?thesis
    by simp
qed

text \<open>
  Against claim C9 as written (the accepted bids are strictly increasing in amount).
  Users 8 and 7 both load the page of auction 1 while it has no bid. User 8 submits 150
  at time 10, user 7 submits 150 at time 20 from the page loaded before: both are
  stored, and the amounts in order of admission are 150, 150.
\<close>

theorem equal_bids_both_admitted:
  "handleBidSubmit (Some 8) 1 10 21 open_db (page 8 open_db 150)
     = Inr (page 8 (open_db\<lparr>bids := [bid_150_by 21 8 10]\<rparr>) 151,
            open_db\<lparr>bids := [bid_150_by 21 8 10]\<rparr>)
   \<and> handleBidSubmit (Some 7) 1 20 22 (open_db\<lparr>bids := [bid_150_by 21 8 10]\<rparr>) (page 7 open_db 150)
     = Inr (page 7 (open_db\<lparr>bids := [bid_150_by 21 8 10, bid_150_by 22 7 20]\<rparr>) 151,
            open_db\<lparr>bids := [bid_150_by 21 8 10, bid_150_by 22 7 20]\<rparr>)
   \<and> map amount (bids (open_db\<lparr>bids := [bid_150_by 21 8 10, bid_150_by 22 7 20]\<rparr>)) = [150, 150]"
  by (simp add: client_defs ex_defs trigger_defs)

section \<open>Subscriptions\<close>

lemma unsubscribeFromChannel_calls:
  assumes "\<forall>k. channels s k \<noteq> Some c"
  shows "(\<forall>k. channels (unsubscribeFromChannel key s) k \<noteq> Some c)
       \<and> (\<exists>more. calls (unsubscribeFromChannel key s) = calls s @ more
              \<and> Unsubscribe c \<notin> set more)"
proof (cases "channels s key")
  case None
  with assms show ?thesis
    by (simp add: unsubscribeFromChannel_def)
next
  case (Some c')
  with assms have "c' \<noteq> c"
    by auto
  with Some assms show ?thesis
    by (simp add: unsubscribeFromChannel_def)
qed

lemma fold_unsubscribeFromChannel_calls:
  "\<forall>k. channels s k \<noteq> Some c \<Longrightarrow>
     \<exists>more. calls (fold unsubscribeFromChannel keys s) = calls s @ more
        \<and> Unsubscribe c \<notin> set more"
proof (induction keys arbitrary: s)
  case Nil
  then show ?case by simp
next
  case (Cons key keys)
  from unsubscribeFromChannel_calls [OF Cons.prems, of key]
  obtain m1 where k: "\<forall>k. channels (unsubscribeFromChannel key s) k \<noteq> Some c"
    and c1: "calls (unsubscribeFromChannel key s) = calls s @ m1" "Unsubscribe c \<notin> set m1"
    by blast
  from Cons.IH [OF k] obtain m2
    where c2: "calls (fold unsubscribeFromChannel keys (unsubscribeFromChannel key s))
                 = calls (unsubscribeFromChannel key s) @ m2" "Unsubscribe c \<notin> set m2"
    by blast
  from c1 c2 show ?case
    by (intro exI [of _ "m1 @ m2"]) simp
qed

text \<open>
  Claim C10, as the service has it. Let \<open>subscribeToAuction\<close> be called twice with the same
  auction id, the client handing out the channel object \<open>c1\<close>, which the map does not
  hold yet, and then another object \<open>c2\<close>. The first call enters \<open>c1\<close> under the id; the
  second call replaces that entry with \<open>c2\<close>, so that no key of the map leads to \<open>c1\<close> any
  more. From then on the service never calls \<^verbatim>\<open>unsubscribe()\<close> on \<open>c1\<close>: not when the
  function returned by the first call runs, and not in any sequence of calls of
  \<open>unsubscribeFromChannel\<close>. Whether \<open>c1\<close> is still subscribed is up to the client.
\<close>

theorem resubscription_drops_first_channel:
  assumes "subscribeToAuction c1 auctionId s = (unsubscribe1, s1)"
    and "subscribeToAuction c2 auctionId s1 = (unsubscribe2, s2)"
    and "c2 \<noteq> c1" and "\<forall>k. channels s k \<noteq> Some c1"
  shows "channels s1 auctionId = Some c1
       \<and> channels s2 auctionId = Some c2
       \<and> (\<forall>k. channels s2 k \<noteq> Some c1)
       \<and> (\<exists>more. calls (unsubscribe1 s2) = calls s2 @ more \<and> Unsubscribe c1 \<notin> set more)
       \<and> (\<forall>keys. \<exists>more. calls (fold unsubscribeFromChannel keys s2) = calls s2 @ more
              \<and> Unsubscribe c1 \<notin> set more)"
proof -
  from assms(1) have u1: "unsubscribe1 = unsubscribeFromAuction auctionId"
    and s1: "channels s1 = (channels s)(auctionId \<mapsto> c1)"
    by (auto simp: subscribeToAuction_def)
  from assms(2) have s2: "channels s2 = (channels s1)(auctionId \<mapsto> c2)"
    by (auto simp: subscribeToAuction_def)
  have a: "channels s1 auctionId = Some c1" "channels s2 auctionId = Some c2"
    using s1 s2 by simp_all
  have n: "\<forall>k. channels s2 k \<noteq> Some c1"
    using s1 s2 assms(3,4) by simp
  have f: "\<exists>more. calls (fold unsubscribeFromChannel keys s2) = calls s2 @ more
              \<and> Unsubscribe c1 \<notin> set more" for keys
    using n by (rule fold_unsubscribeFromChannel_calls)
  from f [of "[''auction:'' @ auctionId]"]
  have "\<exists>more. calls (unsubscribe1 s2) = calls s2 @ more \<and> Unsubscribe c1 \<notin> set more"
    by (simp add: u1 unsubscribeFromAuction_def)
  with a n f show ?thesis
    by blast
qed

text \<open>
  The statement of C10 for auction id \<open>a1\<close> and the channel objects 0 and 1, starting with
  no subscription.
\<close>

theorem resubscription_drops_first_channel_witness:
  "subscribeToAuction 0 ''a1'' no_channels
     = (unsubscribeFromAuction ''a1'',
        \<lparr>calls = [Subscribe 0 \<lparr>topic = ''auction:a1'', event = ''*'', table = ''bids'',
                                filter_expr = ''auction_id=eq.a1''\<rparr>],
         channels = [''a1'' \<mapsto> 0]\<rparr>)
   \<and> channels (snd (subscribeToAuction 1 ''a1'' (snd (subscribeToAuction 0 ''a1'' no_channels)))) ''a1''
       = Some 1
   \<and> (\<exists>more. calls (unsubscribeFromAuction ''a1''
                  (snd (subscribeToAuction 1 ''a1'' (snd (subscribeToAuction 0 ''a1'' no_channels)))))
          = calls (snd (subscribeToAuction 1 ''a1'' (snd (subscribeToAuction 0 ''a1'' no_channels))))
              @ more
        \<and> Unsubscribe 0 \<notin> set more)"
proof -
  let ?first = "subscribeToAuction 0 ''a1'' no_channels"
  let ?second = "subscribeToAuction 1 ''a1'' (snd ?first)"
  have h: "?first = (unsubscribeFromAuction ''a1'', snd ?first)"
    "?second = (unsubscribeFromAuction ''a1'', snd ?second)"
    "(1::nat) \<noteq> 0" "\<forall>k. channels no_channels k \<noteq> Some 0"
    by (simp_all add: subscribeToAuction_def no_channels_def)
  have e: "?first = (unsubscribeFromAuction ''a1'',
        \<lparr>calls = [Subscribe 0 \<lparr>topic = ''auction:a1'', event = ''*'', table = ''bids'',
                                filter_expr = ''auction_id=eq.a1''\<rparr>],
         channels = [''a1'' \<mapsto> 0]\<rparr>)"
    by (simp add: subscribeToAuction_def no_channels_def)
  from resubscription_drops_first_channel [OF h] e show ?thesis
    by blast
qed

text \<open>
  Against claim C10 as written (the earlier channel remains subscribed). After the two
  calls the service has asked the client to subscribe two channels of the one topic
  \<^verbatim>\<open>auction:a1\<close>. The client leaves the joined channel of a topic when another channel of
  that topic subscribes: channel 1 is joined, channel 0 is not.
\<close>

theorem first_channel_left_by_client:
  "calls (snd (subscribeToAuction 1 ''a1'' (snd (subscribeToAuction 0 ''a1'' no_channels))))
     = [Subscribe 0 \<lparr>topic = ''auction:a1'', event = ''*'', table = ''bids'',
                      filter_expr = ''auction_id=eq.a1''\<rparr>,
        Subscribe 1 \<lparr>topic = ''auction:a1'', event = ''*'', table = ''bids'',
                      filter_expr = ''auction_id=eq.a1''\<rparr>]
   \<and> joined_channels
       (calls (snd (subscribeToAuction 1 ''a1'' (snd (subscribeToAuction 0 ''a1'' no_channels)))))
     = [(1, ''auction:a1'')]"
  by (simp add: subscribeToAuction_def no_channels_def joined_channels_def)

end
